theory Spec2Isabelle
  imports Main "HOL-Library.Char_ord" "HOL-Library.List_Lexorder" "HOL-Library.Multiset"
begin

section \<open>Time values\<close>

text \<open>
  A JavaScript \<open>Date\<close> is its time value: the milliseconds since 1970-01-01T00:00:00Z, an
  integer. \<open>new Date()\<close> reads the clock; the clock reading is the parameter \<open>now\<close> of every
  operation that reads it.

  \<open>Date.prototype.setHours(0, 0, 0, 0)\<close> moves a time value to the start of its day in the
  \<^emph>\<open>local\<close> time zone of the server. The zone is the parameter \<open>tz\<close>: the offset of local
  time from UTC in milliseconds (local = UTC + \<open>tz\<close>). The offset is one constant: the model
  covers a zone without daylight saving, and any zone over a stretch of days in which its
  offset does not change (UTC itself, \<open>tz = 0\<close>, among them); a change of offset between
  the instants compared is outside it.

  \<open>Math.floor(a / b)\<close> on the doubles the source divides is the floor division of the
  integers: \<open>div\<close> on \<open>int\<close> rounds towards minus infinity.
\<close>

definition MS_PER_DAY :: int where
  "MS_PER_DAY = 1000 * 60 * 60 * 24"

definition setHours0 :: "int \<Rightarrow> int \<Rightarrow> int" where
  "setHours0 tz t = ((t + tz) div MS_PER_DAY) * MS_PER_DAY - tz"

text \<open>
  The streak query returns rows with one column, \<open>date(completed_at)\<close>: the text
  \<open>YYYY-MM-DD\<close> (in UTC) for a value SQLite reads as a time in the range its date
  functions support, the years 0000 to 9999, or SQL NULL when it cannot read the value as
  a time. The text is represented by the number of its day since 1970-01-01, NULL by
  \<open>None\<close>. \<open>new Date('YYYY-MM-DD')\<close> is midnight UTC of that day; \<open>new Date(null)\<close> is time
  value 0.
\<close>

fun new_Date :: "int option \<Rightarrow> int" where
  "new_Date None = 0"
| "new_Date (Some d) = d * MS_PER_DAY"

section \<open>The database\<close>

text \<open>
  The two tables of schema.sql, each a list of rows in rowid order, the AUTOINCREMENT
  counters of \<open>sqlite_sequence\<close>, and the outcomes of the statements still to come: the
  driver is an external collaborator, and a statement either runs or rejects with a thrown
  value. \<open>faults\<close> lists, for the next statements in order, \<open>Some e\<close> when the statement
  rejects with \<open>e\<close> and \<open>None\<close> when it runs; past the end of the list every statement runs.
\<close>

datatype thrown = Error string | NonError

record habit_row =
  h_id :: int
  h_name :: string
  h_description :: string
  h_frequency :: string
  h_target_days :: string
  h_priority :: int
  h_category :: string
  h_created_at :: string

text \<open>
  schema.sql declares \<open>completed_at DATETIME\<close>, a column of NUMERIC affinity: a text bound
  to it is stored as a number (INTEGER or REAL) when it is a well-formed numeric literal
  (\<open>'007'\<close> becomes 7), and as TEXT otherwise (an ISO timestamp stays the text). A stored
  value is a number, of a linearly ordered type \<open>'n\<close>, or a text. Which text becomes
  which number is SQLite's rule: the parameter \<open>numeric_affinity\<close> of the statements that
  insert. In comparisons and in \<open>ORDER BY\<close> every number is below every text, numbers
  compare by value and texts bytewise, as the lexicographic order on \<open>string\<close> does.
\<close>

datatype 'n sql_value = SqlNumber 'n | SqlText string

fun sql_less_eq :: "('n::linorder) sql_value \<Rightarrow> 'n sql_value \<Rightarrow> bool" where
  "sql_less_eq (SqlNumber x) (SqlNumber y) = (x \<le> y)"
| "sql_less_eq (SqlNumber x) (SqlText t) = True"
| "sql_less_eq (SqlText s) (SqlNumber y) = False"
| "sql_less_eq (SqlText s) (SqlText t) = (s \<le> t)"

record 'n entry_row =
  e_id :: int
  e_habit_id :: int
  e_completed_at :: "'n sql_value"

record 'n database =
  habits :: "habit_row list"
  habit_entries :: "'n entry_row list"
  habits_seq :: int
  habit_entries_seq :: int
  faults :: "thrown option list"

definition db_query :: "('n database \<Rightarrow> 'a) \<Rightarrow> 'n database \<Rightarrow> (thrown + 'a) \<times> 'n database" where
  "db_query q db =
     (case faults db of
        [] \<Rightarrow> (Inr (q db), db)
      | None # fs \<Rightarrow> (Inr (q db), db\<lparr>faults := fs\<rparr>)
      | Some e # fs \<Rightarrow> (Inl e, db\<lparr>faults := fs\<rparr>))"

definition db_run ::
  "('n database \<Rightarrow> 'a \<times> 'n database) \<Rightarrow> 'n database \<Rightarrow> (thrown + 'a) \<times> 'n database" where
  "db_run stmt db =
     (case faults db of
        [] \<Rightarrow> (case stmt db of (r, db') \<Rightarrow> (Inr r, db'))
      | None # fs \<Rightarrow> (case stmt (db\<lparr>faults := fs\<rparr>) of (r, db') \<Rightarrow> (Inr r, db'))
      | Some e # fs \<Rightarrow> (Inl e, db\<lparr>faults := fs\<rparr>))"

text \<open>The next \<open>n\<close> statements run: none of them is scheduled to reject.\<close>

definition statements_run :: "nat \<Rightarrow> 'n database \<Rightarrow> bool" where
  "statements_run n db = list_all (\<lambda>f. f = None) (take n (faults db))"

subsection \<open>ORDER BY\<close>

text \<open>
  \<open>ORDER BY\<close> as an insertion sort by a "comes before or ties" relation. SQL leaves the
  order of ties open; the model keeps them in rowid order.
\<close>

fun insert_by :: "('a \<Rightarrow> 'a \<Rightarrow> bool) \<Rightarrow> 'a \<Rightarrow> 'a list \<Rightarrow> 'a list" where
  "insert_by le x [] = [x]"
| "insert_by le x (y # ys) = (if le x y then x # y # ys else y # insert_by le x ys)"

fun order_by :: "('a \<Rightarrow> 'a \<Rightarrow> bool) \<Rightarrow> 'a list \<Rightarrow> 'a list" where
  "order_by le [] = []"
| "order_by le (x # xs) = insert_by le x (order_by le xs)"

subsection \<open>The streak query\<close>

text \<open>
  \<open>SELECT date(completed_at) as date FROM habit_entries WHERE habit_id = ? ORDER BY
  completed_at DESC\<close>. The rows come in descending order of the stored values: the texts
  first, then the numbers. SQLite's \<open>date()\<close>, on a stored value, is the parameter
  \<open>sql_date\<close>.
\<close>

definition completed_at_desc :: "('n::linorder) entry_row \<Rightarrow> 'n entry_row \<Rightarrow> bool" where
  "completed_at_desc a b = sql_less_eq (e_completed_at b) (e_completed_at a)"

definition streak_rows :: "int \<Rightarrow> ('n::linorder) database \<Rightarrow> 'n entry_row list" where
  "streak_rows habitId db =
     order_by completed_at_desc (filter (\<lambda>e. e_habit_id e = habitId) (habit_entries db))"

definition streak_query ::
  "(('n::linorder) sql_value \<Rightarrow> int option) \<Rightarrow> int \<Rightarrow> 'n database \<Rightarrow> int option list" where
  "streak_query sql_date habitId db = map (\<lambda>e. sql_date (e_completed_at e)) (streak_rows habitId db)"

section \<open>Streak calculation\<close>

subsection \<open>index.ts: calculateStreak\<close>

function calculateStreak_loop :: "int \<Rightarrow> int option list \<Rightarrow> nat \<Rightarrow> nat \<Rightarrow> int \<Rightarrow> nat" where
  "calculateStreak_loop tz entries i streak currentDate =
     (if i < length entries then
        (let entryDate = setHours0 tz (new_Date (entries ! i));
             diffDays = (currentDate - entryDate) div MS_PER_DAY
         in if diffDays \<le> 1
            then calculateStreak_loop tz entries (i + 1) (streak + 1) entryDate
            else streak)
      else streak)"
  by pat_completeness auto
termination
  by (relation "measure (\<lambda>(tz, entries, i, streak, currentDate). length entries - i)") auto

declare calculateStreak_loop.simps [simp del]

definition calculateStreak_entries :: "int \<Rightarrow> int \<Rightarrow> int option list \<Rightarrow> nat" where
  "calculateStreak_entries tz now entries =
     (if length entries = 0 then 0
      else calculateStreak_loop tz entries 0 0 (setHours0 tz now))"

definition calculateStreak ::
  "(('n::linorder) sql_value \<Rightarrow> int option) \<Rightarrow> int \<Rightarrow> int \<Rightarrow> int \<Rightarrow> 'n database
     \<Rightarrow> (thrown + nat) \<times> 'n database" where
  "calculateStreak sql_date tz now habitId db =
     (case db_query (streak_query sql_date habitId) db of
        (Inr entries, db') \<Rightarrow> (Inr (calculateStreak_entries tz now entries), db')
      | (Inl error, db') \<Rightarrow> (Inr 0, db'))"

subsection \<open>habitRepository.ts: HabitRepository.calculateStreak\<close>

function HabitRepository_calculateStreak_loop :: "int option list \<Rightarrow> nat \<Rightarrow> nat \<Rightarrow> int \<Rightarrow> nat" where
  "HabitRepository_calculateStreak_loop entries i streak currentDate =
     (if i < length entries then
        (let entryDate = new_Date (entries ! i);
             diffDays = (currentDate - entryDate) div MS_PER_DAY
         in if diffDays \<le> 1
            then HabitRepository_calculateStreak_loop entries (i + 1) (streak + 1) entryDate
            else streak)
      else streak)"
  by pat_completeness auto
termination
  by (relation "measure (\<lambda>(entries, i, streak, currentDate). length entries - i)") auto

declare HabitRepository_calculateStreak_loop.simps [simp del]

definition HabitRepository_calculateStreak_entries :: "int \<Rightarrow> int option list \<Rightarrow> nat" where
  "HabitRepository_calculateStreak_entries now entries =
     HabitRepository_calculateStreak_loop entries 0 0 now"

definition HabitRepository_calculateStreak ::
  "(('n::linorder) sql_value \<Rightarrow> int option) \<Rightarrow> int \<Rightarrow> int \<Rightarrow> 'n database
     \<Rightarrow> (thrown + nat) \<times> 'n database" where
  "HabitRepository_calculateStreak sql_date now habitId db =
     (case db_query (streak_query sql_date habitId) db of
        (Inr entries, db') \<Rightarrow> (Inr (HabitRepository_calculateStreak_entries now entries), db')
      | (Inl error, db') \<Rightarrow> (Inr 0, db'))"

subsection \<open>The algorithm of the specification\<close>

text \<open>
  The specification's words: the input is the calendar date (day granularity) of every
  completion-entry, in descending order, and the current date. If there are no entries the
  streak is 0; otherwise start with the cursor at the current date and streak 0; for each
  entry date in order compute the gap in whole days between the cursor and the entry date;
  if the gap is at most 1, increment the streak, move the cursor to the entry date and
  continue; else stop. A calendar date is the number of its day since 1970-01-01.
\<close>

fun spec_scan_days :: "int \<Rightarrow> nat \<Rightarrow> int list \<Rightarrow> nat" where
  "spec_scan_days cursor streak [] = streak"
| "spec_scan_days cursor streak (entry_date # rest) =
     (if cursor - entry_date \<le> 1
      then spec_scan_days entry_date (Suc streak) rest
      else streak)"

definition spec_streak_days :: "int \<Rightarrow> int list \<Rightarrow> nat" where
  "spec_streak_days current_date entry_dates =
     (if entry_dates = [] then 0 else spec_scan_days current_date 0 entry_dates)"

text \<open>
  The calendar date of a row of the streak query: the day its \<open>date\<close> text names, and
  1970-01-01 for NULL, which \<open>new Date(null)\<close> makes of it.
\<close>

fun calendar_date :: "int option \<Rightarrow> int" where
  "calendar_date None = 0"
| "calendar_date (Some d) = d"

text \<open>
  The same scan on time values: dates as the \<open>Date\<close>s the loops hold, the cursor a time
  value, the gap the floor of the difference in days.
\<close>

definition whole_days_between :: "int \<Rightarrow> int \<Rightarrow> int" where
  "whole_days_between cursor entry_date = (cursor - entry_date) div MS_PER_DAY"

fun spec_scan :: "int \<Rightarrow> nat \<Rightarrow> int list \<Rightarrow> nat" where
  "spec_scan cursor streak [] = streak"
| "spec_scan cursor streak (entry_date # rest) =
     (if whole_days_between cursor entry_date \<le> 1
      then spec_scan entry_date (Suc streak) rest
      else streak)"

definition spec_streak :: "int \<Rightarrow> int list \<Rightarrow> nat" where
  "spec_streak midnight_now entry_dates =
     (if entry_dates = [] then 0 else spec_scan midnight_now 0 entry_dates)"

section \<open>JavaScript helpers\<close>

text \<open>
  \<open>JSON.stringify\<close> on an array of strings: the elements quoted, joined by commas, in
  brackets. Quoting escapes the double quote, the backslash and the control characters.
\<close>

definition hex_digit :: "nat \<Rightarrow> char" where
  "hex_digit n = ''0123456789abcdef'' ! (n mod 16)"

definition json_escape :: "char \<Rightarrow> string" where
  "json_escape c =
     (if c = CHR 0x22 then [CHR 0x5C, CHR 0x22]
      else if c = CHR 0x5C then [CHR 0x5C, CHR 0x5C]
      else if c = CHR 0x08 then [CHR 0x5C, CHR ''b'']
      else if c = CHR 0x0C then [CHR 0x5C, CHR ''f'']
      else if c = CHR 0x0A then [CHR 0x5C, CHR ''n'']
      else if c = CHR 0x0D then [CHR 0x5C, CHR ''r'']
      else if c = CHR 0x09 then [CHR 0x5C, CHR ''t'']
      else if (of_char c :: nat) < 32
        then [CHR 0x5C, CHR ''u'', CHR ''0'', CHR ''0'',
              hex_digit (of_char c div 16), hex_digit (of_char c mod 16)]
      else [c])"

definition json_quote :: "string \<Rightarrow> string" where
  "json_quote s = [CHR 0x22] @ concat (map json_escape s) @ [CHR 0x22]"

fun join_comma :: "string list \<Rightarrow> string" where
  "join_comma [] = []"
| "join_comma [x] = x"
| "join_comma (x # y # ys) = x @ '','' @ join_comma (y # ys)"

definition JSON_stringify :: "string list \<Rightarrow> string" where
  "JSON_stringify xs = ''['' @ join_comma (map json_quote xs) @ '']''"

text \<open>
  The text of an identifier inside a template literal, \<open>`${id}`\<close>: its decimal digits, as
  JavaScript writes every integer below \<open>2^53\<close> in absolute value (beyond that a Number
  does not hold every integer, and from \<open>1e21\<close> it is written with an exponent).
\<close>

definition digit_char :: "nat \<Rightarrow> char" where
  "digit_char d = ''0123456789'' ! (d mod 10)"

fun decimal :: "nat \<Rightarrow> string" where
  "decimal n = (if 10 \<le> n then decimal (n div 10) else []) @ [digit_char n]"

declare decimal.simps [simp del]

definition Number_toString :: "int \<Rightarrow> string" where
  "Number_toString i = (if 0 \<le> i then decimal (nat i) else CHR ''-'' # decimal (nat (- i)))"

text \<open>
  The value a JavaScript property holds at run time, for the one property whose declared
  type (\<open>string[]\<close> in types/habit.ts) and stored form (TEXT) differ.
\<close>

datatype js_value = JSString string | JSStringArray "string list"

section \<open>SQL statements\<close>

text \<open>\<open>SELECT * FROM habits ORDER BY priority DESC, created_at DESC\<close>\<close>

definition priority_desc_created_at_desc :: "habit_row \<Rightarrow> habit_row \<Rightarrow> bool" where
  "priority_desc_created_at_desc a b =
     (h_priority b < h_priority a \<or> (h_priority a = h_priority b \<and> h_created_at b \<le> h_created_at a))"

definition select_habits :: "'n database \<Rightarrow> habit_row list" where
  "select_habits db = order_by priority_desc_created_at_desc (habits db)"

text \<open>\<open>SELECT * FROM habits WHERE id = ?\<close>, read with \<open>db.get\<close>: the first row, if any.\<close>

definition select_habit :: "int \<Rightarrow> 'n database \<Rightarrow> habit_row option" where
  "select_habit i db = find (\<lambda>h. h_id h = i) (habits db)"

text \<open>
  \<open>INSERT INTO habits (name, description, frequency, target_days, priority, category)
  VALUES (?, ?, ?, ?, ?, ?)\<close>. The id is AUTOINCREMENT: one more than the largest of the
  counter and the ids in the table. \<open>created_at\<close> defaults to CURRENT_TIMESTAMP, the
  parameter \<open>current_timestamp\<close>. The result is \<open>lastID\<close>.
\<close>

definition insert_habit ::
  "string \<Rightarrow> string \<Rightarrow> string \<Rightarrow> string \<Rightarrow> string \<Rightarrow> int \<Rightarrow> string \<Rightarrow> 'n database
     \<Rightarrow> int \<times> 'n database" where
  "insert_habit current_timestamp nm descr freq tdays prio cat db =
     (let lastID = foldr max (map h_id (habits db)) (habits_seq db) + 1;
          row = \<lparr>h_id = lastID, h_name = nm, h_description = descr, h_frequency = freq,
                 h_target_days = tdays, h_priority = prio, h_category = cat,
                 h_created_at = current_timestamp\<rparr>
      in (lastID, db\<lparr>habits := habits db @ [row], habits_seq := lastID\<rparr>))"

text \<open>\<open>DELETE FROM habit_entries WHERE habit_id = ?\<close> and \<open>DELETE FROM habits WHERE id = ?\<close>\<close>

definition delete_habit_entries :: "int \<Rightarrow> 'n database \<Rightarrow> unit \<times> 'n database" where
  "delete_habit_entries i db =
     ((), db\<lparr>habit_entries := filter (\<lambda>e. e_habit_id e \<noteq> i) (habit_entries db)\<rparr>)"

definition delete_habit_row :: "int \<Rightarrow> 'n database \<Rightarrow> unit \<times> 'n database" where
  "delete_habit_row i db = ((), db\<lparr>habits := filter (\<lambda>h. h_id h \<noteq> i) (habits db)\<rparr>)"

text \<open>
  \<open>INSERT INTO habit_entries (habit_id, completed_at) VALUES (?, ?)\<close>. The text bound to
  \<open>completed_at\<close> is stored as the column's affinity makes it.
\<close>

definition insert_entry ::
  "(string \<Rightarrow> 'n sql_value) \<Rightarrow> int \<Rightarrow> string \<Rightarrow> 'n database \<Rightarrow> unit \<times> 'n database" where
  "insert_entry numeric_affinity habitId completedAt db =
     (let lastID = foldr max (map e_id (habit_entries db)) (habit_entries_seq db) + 1;
          row = \<lparr>e_id = lastID, e_habit_id = habitId,
                 e_completed_at = numeric_affinity completedAt\<rparr>
      in ((), db\<lparr>habit_entries := habit_entries db @ [row], habit_entries_seq := lastID\<rparr>))"

text \<open>
  \<open>SELECT completed_at FROM habit_entries WHERE habit_id = ? AND completed_at >=
  date("now", "-30 days")\<close>. The text \<open>date("now", "-30 days")\<close>, of the form
  \<open>YYYY-MM-DD\<close> and so not a numeric literal, is the parameter \<open>window_start\<close>; the
  comparison is that of stored values, under which a number is below the text.
\<close>

definition select_recent_entries ::
  "string \<Rightarrow> int \<Rightarrow> ('n::linorder) database \<Rightarrow> 'n sql_value list" where
  "select_recent_entries window_start habitId db =
     map e_completed_at
       (filter (\<lambda>e. e_habit_id e = habitId \<and> sql_less_eq (SqlText window_start) (e_completed_at e))
          (habit_entries db))"

section \<open>habitRepository.ts\<close>

record CreateHabitDTO =
  name :: string
  description :: string
  frequency :: string
  target_days :: "string list"
  priority :: int
  category :: string

definition HabitRepository_findAll :: "'n database \<Rightarrow> (thrown + habit_row list) \<times> 'n database" where
  "HabitRepository_findAll db =
     (case db_query select_habits db of
        (Inr rows, db') \<Rightarrow> (Inr rows, db')
      | (Inl error, db') \<Rightarrow> (Inl (Error ''Failed to fetch habits from database''), db'))"

definition HabitRepository_findById ::
  "int \<Rightarrow> 'n database \<Rightarrow> (thrown + habit_row option) \<times> 'n database" where
  "HabitRepository_findById i db =
     (case db_query (select_habit i) db of
        (Inr row, db') \<Rightarrow> (Inr row, db')
      | (Inl error, db') \<Rightarrow> (Inl (Error (''Failed to fetch habit with id '' @ Number_toString i)), db'))"

definition HabitRepository_create ::
  "string \<Rightarrow> CreateHabitDTO \<Rightarrow> 'n database \<Rightarrow> (thrown + int) \<times> 'n database" where
  "HabitRepository_create current_timestamp habit db =
     (case db_run (insert_habit current_timestamp (name habit) (description habit) (frequency habit)
                     (JSON_stringify (target_days habit)) (priority habit) (category habit)) db of
        (Inr lastID, db') \<Rightarrow> (Inr lastID, db')
      | (Inl error, db') \<Rightarrow> (Inl (Error ''Failed to create habit''), db'))"

definition HabitRepository_delete :: "int \<Rightarrow> 'n database \<Rightarrow> (thrown + unit) \<times> 'n database" where
  "HabitRepository_delete i db =
     (case db_run (delete_habit_entries i) db of
        (Inl error, db1) \<Rightarrow> (Inl (Error (''Failed to delete habit with id '' @ Number_toString i)), db1)
      | (Inr u, db1) \<Rightarrow>
          (case db_run (delete_habit_row i) db1 of
             (Inl error, db2) \<Rightarrow> (Inl (Error (''Failed to delete habit with id '' @ Number_toString i)), db2)
           | (Inr v, db2) \<Rightarrow> (Inr (), db2)))"

definition HabitRepository_addEntry ::
  "(string \<Rightarrow> 'n sql_value) \<Rightarrow> int \<Rightarrow> string \<Rightarrow> 'n database \<Rightarrow> (thrown + unit) \<times> 'n database" where
  "HabitRepository_addEntry numeric_affinity habitId completedAt db =
     (case db_run (insert_entry numeric_affinity habitId completedAt) db of
        (Inr u, db') \<Rightarrow> (Inr (), db')
      | (Inl error, db') \<Rightarrow> (Inl (Error (''Failed to add entry for habit '' @ Number_toString habitId)), db'))"

text \<open>
  The object \<open>findById\<close> hands out is the row as the driver read it: its \<open>target_days\<close>
  property holds the TEXT of the column.
\<close>

definition Habit_target_days :: "habit_row \<Rightarrow> js_value" where
  "Habit_target_days row = JSString (h_target_days row)"

section \<open>index.ts: the request handlers\<close>

text \<open>
  A response is either \<open>res.json(body)\<close> or \<open>res.status(code).json({error, details})\<close>
  (\<open>details\<close> absent on 404). \<open>{success: true}\<close> is the body \<open>Success\<close>.
\<close>

datatype 'a response = Json 'a | Failure nat string "string option"

datatype success = Success

definition details :: "thrown \<Rightarrow> string" where
  "details error = (case error of Error message \<Rightarrow> message | NonError \<Rightarrow> ''Unknown error'')"

record 'n habit_with_stats =
  habit :: habit_row
  entries :: "'n sql_value list"
  currentStreak :: nat

fun getHabits_loop ::
  "(('n::linorder) sql_value \<Rightarrow> int option) \<Rightarrow> int \<Rightarrow> int \<Rightarrow> string \<Rightarrow> habit_row list
     \<Rightarrow> 'n database \<Rightarrow> (thrown + 'n habit_with_stats list) \<times> 'n database" where
  "getHabits_loop sql_date tz now window_start [] db = (Inr [], db)"
| "getHabits_loop sql_date tz now window_start (h # hs) db =
     (case db_query (select_recent_entries window_start (h_id h)) db of
        (Inl error, db1) \<Rightarrow> (Inl error, db1)
      | (Inr es, db1) \<Rightarrow>
          (case calculateStreak sql_date tz now (h_id h) db1 of
             (Inl error, db2) \<Rightarrow> (Inl error, db2)
           | (Inr streak, db2) \<Rightarrow>
               (case getHabits_loop sql_date tz now window_start hs db2 of
                  (Inl error, db3) \<Rightarrow> (Inl error, db3)
                | (Inr rest, db3) \<Rightarrow>
                    (Inr (\<lparr>habit = h, entries = es, currentStreak = streak\<rparr> # rest), db3))))"

definition getHabits ::
  "(('n::linorder) sql_value \<Rightarrow> int option) \<Rightarrow> int \<Rightarrow> int \<Rightarrow> string \<Rightarrow> 'n database
     \<Rightarrow> 'n habit_with_stats list response \<times> 'n database" where
  "getHabits sql_date tz now window_start db =
     (case db_query select_habits db of
        (Inl error, db1) \<Rightarrow> (Failure 500 ''Failed to fetch habits'' (Some (details error)), db1)
      | (Inr hs, db1) \<Rightarrow>
          (case getHabits_loop sql_date tz now window_start hs db1 of
             (Inl error, db2) \<Rightarrow> (Failure 500 ''Failed to fetch habits'' (Some (details error)), db2)
           | (Inr result, db2) \<Rightarrow> (Json result, db2)))"

definition getHabitById :: "int \<Rightarrow> 'n database \<Rightarrow> habit_row response \<times> 'n database" where
  "getHabitById i db =
     (case db_query (select_habit i) db of
        (Inl error, db') \<Rightarrow> (Failure 500 ''Failed to fetch habit'' (Some (details error)), db')
      | (Inr None, db') \<Rightarrow> (Failure 404 ''Habit not found'' None, db')
      | (Inr (Some h), db') \<Rightarrow> (Json h, db'))"

definition createHabit ::
  "string \<Rightarrow> CreateHabitDTO \<Rightarrow> 'n database \<Rightarrow> int response \<times> 'n database" where
  "createHabit current_timestamp body db =
     (case db_run (insert_habit current_timestamp (name body) (description body) (frequency body)
                     (JSON_stringify (target_days body)) (priority body) (category body)) db of
        (Inl error, db') \<Rightarrow> (Failure 500 ''Failed to create habit'' (Some (details error)), db')
      | (Inr lastID, db') \<Rightarrow> (Json lastID, db'))"

definition deleteHabit :: "int \<Rightarrow> 'n database \<Rightarrow> success response \<times> 'n database" where
  "deleteHabit i db =
     (case db_run (delete_habit_entries i) db of
        (Inl error, db1) \<Rightarrow> (Failure 500 ''Failed to delete habit'' (Some (details error)), db1)
      | (Inr u, db1) \<Rightarrow>
          (case db_run (delete_habit_row i) db1 of
             (Inl error, db2) \<Rightarrow> (Failure 500 ''Failed to delete habit'' (Some (details error)), db2)
           | (Inr v, db2) \<Rightarrow> (Json Success, db2)))"

text \<open>
  \<open>completed_at || new Date().toISOString()\<close>: the right operand is taken when the left
  one is falsy, that is absent or the empty string. \<open>toISOString\<close> is a parameter.
\<close>

definition or_default :: "string option \<Rightarrow> string \<Rightarrow> string" where
  "or_default v d = (case v of None \<Rightarrow> d | Some s \<Rightarrow> (if s = [] then d else s))"


section \<open>Example data\<close>

text \<open>
  A clock reading, 2024-01-10T12:00:00Z, and a database with two habits: habit 1 was
  completed twice on 2024-01-10 and once on 2024-01-09, habit 2 once on 2024-01-09.
  The stored values are texts, and numbers where they occur are integers.
  \<open>example_date\<close> is SQLite's \<open>date()\<close> on the texts stored (2024-01-10 is day 19732) and
  on an integer inside the range SQLite supports, which it reads as a Julian day number
  (2440588 is 1970-01-01). \<open>example_affinity\<close> is what the column stores for the two kinds
  of text the examples insert, and for no other: a text of one to eighteen decimal digits
  becomes the integer, an ISO timestamp stays the text.
\<close>

definition example_now :: int where
  "example_now = 19732 * MS_PER_DAY + 12 * 60 * 60 * 1000"

definition example_date :: "int sql_value \<Rightarrow> int option" where
  "example_date v =
     (case v of
        SqlText s \<Rightarrow>
          map_of [(''2024-01-10T08:00:00.000Z'', 19732), (''2024-01-10T09:30:00.000Z'', 19732),
                  (''2024-01-09T07:00:00.000Z'', 19731)] s
      | SqlNumber n \<Rightarrow> (if 1721060 \<le> n \<and> n \<le> 5373484 then Some (n - 2440588) else None))"




definition example_db :: "int database" where
  "example_db =
     \<lparr>habits =
        [\<lparr>h_id = 1, h_name = ''Read'', h_description = ''Read a chapter'', h_frequency = ''daily'',
           h_target_days = ''[]'', h_priority = 1, h_category = ''mind'',
           h_created_at = ''2024-01-01 10:00:00''\<rparr>,
         \<lparr>h_id = 2, h_name = ''Run'', h_description = ''Run 5 km'', h_frequency = ''daily'',
           h_target_days = ''[]'', h_priority = 3, h_category = ''body'',
           h_created_at = ''2024-01-02 10:00:00''\<rparr>],
      habit_entries =
        [\<lparr>e_id = 1, e_habit_id = 1, e_completed_at = SqlText ''2024-01-09T07:00:00.000Z''\<rparr>,
         \<lparr>e_id = 2, e_habit_id = 2, e_completed_at = SqlText ''2024-01-09T07:00:00.000Z''\<rparr>,
         \<lparr>e_id = 3, e_habit_id = 1, e_completed_at = SqlText ''2024-01-10T08:00:00.000Z''\<rparr>,
         \<lparr>e_id = 4, e_habit_id = 1, e_completed_at = SqlText ''2024-01-10T09:30:00.000Z''\<rparr>],
      habits_seq = 2, habit_entries_seq = 4, faults = []\<rparr>"

definition example_habit :: CreateHabitDTO where
  "example_habit =
     \<lparr>name = ''Stretch'', description = ''Ten minutes'', frequency = ''custom'',
      target_days = [''monday'', ''wednesday''], priority = 2, category = ''body''\<rparr>"

section \<open>Creating a habit, then fetching it\<close>

text \<open>
  The caller's sequence of the round trip: create, then fetch by the identifier that came
  back, on the database the creation left.
\<close>

definition create_then_findById ::
  "string \<Rightarrow> CreateHabitDTO \<Rightarrow> 'n database \<Rightarrow> thrown + habit_row option" where
  "create_then_findById current_timestamp dto db =
     (case HabitRepository_create current_timestamp dto db of
        (Inl error, db1) \<Rightarrow> Inl error
      | (Inr lastID, db1) \<Rightarrow> fst (HabitRepository_findById lastID db1))"

definition createHabit_then_getHabitById ::
  "string \<Rightarrow> CreateHabitDTO \<Rightarrow> 'n database \<Rightarrow> habit_row response" where
  "createHabit_then_getHabitById current_timestamp body db =
     (case createHabit current_timestamp body db of
        (Failure code msg det, db1) \<Rightarrow> Failure code msg det
      | (Json lastID, db1) \<Rightarrow> fst (getHabitById lastID db1))"

section \<open>Lemmas\<close>

subsection \<open>The loops are the scan\<close>

lemma MS_PER_DAY_pos: "0 < MS_PER_DAY"
  by (simp add: MS_PER_DAY_def)

lemma div_diff_multiple: "D \<noteq> 0 \<Longrightarrow> (c - k * D) div D = c div D - k" for D :: int
  using div_mult_self1 [of D c "- k"] by simp

lemma calculateStreak_loop_scan:
  "calculateStreak_loop tz rows i streak currentDate =
     spec_scan currentDate streak (map (\<lambda>r. setHours0 tz (new_Date r)) (drop i rows))"
proof (induction tz rows i streak currentDate rule: calculateStreak_loop.induct)
  case (1 tz rows i streak currentDate)
  show ?case
  proof (cases "i < length rows")
    case True
    then have d: "drop i rows = rows ! i # drop (Suc i) rows"
      by (simp add: Cons_nth_drop_Suc)
    show ?thesis
      using True 1
      by (subst calculateStreak_loop.simps) (simp add: d whole_days_between_def Let_def)
  next
    case False
    then show ?thesis by (subst calculateStreak_loop.simps) simp
  qed
qed

lemma HabitRepository_calculateStreak_loop_scan:
  "HabitRepository_calculateStreak_loop rows i streak currentDate =
     spec_scan currentDate streak (map new_Date (drop i rows))"
proof (induction rows i streak currentDate rule: HabitRepository_calculateStreak_loop.induct)
  case (1 rows i streak currentDate)
  show ?case
  proof (cases "i < length rows")
    case True
    then have d: "drop i rows = rows ! i # drop (Suc i) rows"
      by (simp add: Cons_nth_drop_Suc)
    show ?thesis
      using True 1
      by (subst HabitRepository_calculateStreak_loop.simps)
         (simp add: d whole_days_between_def Let_def)
  next
    case False
    then show ?thesis by (subst HabitRepository_calculateStreak_loop.simps) simp
  qed
qed

lemma whole_days_midnight:
  "whole_days_between (setHours0 0 c) (k * MS_PER_DAY) = whole_days_between c (k * MS_PER_DAY)"
proof -
  have nz: "MS_PER_DAY \<noteq> 0" using MS_PER_DAY_pos by simp
  have "(c div MS_PER_DAY * MS_PER_DAY - k * MS_PER_DAY) div MS_PER_DAY = c div MS_PER_DAY - k"
    using nz by (simp add: div_diff_multiple)
  then show ?thesis
    using nz by (simp add: whole_days_between_def setHours0_def div_diff_multiple)
qed

lemma new_Date_multiple: "\<exists>k. new_Date r = k * MS_PER_DAY"
  by (cases r) auto

lemma setHours0_utc_new_Date: "setHours0 0 (new_Date r) = new_Date r"
  using MS_PER_DAY_pos by (cases r) (simp_all add: setHours0_def)

lemma spec_scan_midnight:
  "spec_scan (setHours0 0 c) s (map new_Date rs) = spec_scan c s (map new_Date rs)"
proof (cases rs)
  case Nil
  then show ?thesis by simp
next
  case (Cons r rest)
  obtain k where "new_Date r = k * MS_PER_DAY" using new_Date_multiple by blast
  then show ?thesis using Cons whole_days_midnight [of c k] by simp
qed

lemma calculateStreak_entries_spec:
  "calculateStreak_entries tz now rows =
     spec_streak (setHours0 tz now) (map (\<lambda>r. setHours0 tz (new_Date r)) rows)"
  by (simp add: calculateStreak_entries_def spec_streak_def calculateStreak_loop_scan)

lemma HabitRepository_calculateStreak_entries_spec:
  "HabitRepository_calculateStreak_entries now rows =
     spec_streak (setHours0 0 now) (map new_Date rows)"
proof (cases rows)
  case Nil
  then show ?thesis
    by (simp add: HabitRepository_calculateStreak_entries_def spec_streak_def
        HabitRepository_calculateStreak_loop_scan)
next
  case (Cons r rest)
  have "spec_scan now 0 (map new_Date rows) = spec_scan (setHours0 0 now) 0 (map new_Date rows)"
    by (rule spec_scan_midnight [symmetric])
  then show ?thesis
    using Cons
    by (simp add: HabitRepository_calculateStreak_entries_def spec_streak_def
        HabitRepository_calculateStreak_loop_scan del: spec_scan.simps)
qed

lemma calculateStreak_entries_utc:
  "calculateStreak_entries 0 now rows = HabitRepository_calculateStreak_entries now rows"
  by (simp add: calculateStreak_entries_spec HabitRepository_calculateStreak_entries_spec
      setHours0_utc_new_Date)

subsection \<open>The statement schedule\<close>

lemma db_query_runs:
  "statements_run (Suc n) db \<Longrightarrow>
     db_query q db = (Inr (q db), db\<lparr>faults := tl (faults db)\<rparr>)"
  by (cases "faults db") (auto simp: db_query_def statements_run_def split: option.splits)

lemma db_query_rejects:
  "faults db = Some e # fs \<Longrightarrow> db_query q db = (Inl e, db\<lparr>faults := fs\<rparr>)"
  by (simp add: db_query_def)

lemma faults_update_same: "faults db = fs \<Longrightarrow> db\<lparr>faults := fs\<rparr> = db"
  by auto

lemma db_run_runs:
  "statements_run (Suc n) db \<Longrightarrow>
     db_run stmt db = (Inr (fst (stmt (db\<lparr>faults := tl (faults db)\<rparr>))),
                       snd (stmt (db\<lparr>faults := tl (faults db)\<rparr>)))"
  by (cases "faults db")
     (auto simp: db_run_def statements_run_def faults_update_same split: option.splits prod.splits)

lemma db_run_rejects:
  "faults db = Some e # fs \<Longrightarrow> db_run stmt db = (Inl e, db\<lparr>faults := fs\<rparr>)"
  by (simp add: db_run_def)

lemma statements_run_tl:
  "statements_run (Suc n) db \<Longrightarrow> statements_run n (db\<lparr>faults := tl (faults db)\<rparr>)"
  by (cases "faults db") (auto simp: statements_run_def)

lemma not_statements_run_1:
  "\<not> statements_run (Suc 0) db \<Longrightarrow> \<exists>e fs. faults db = Some e # fs"
  by (cases "faults db") (auto simp: statements_run_def)

lemma statements_run_mono: "statements_run (Suc n) db \<Longrightarrow> statements_run n db"
  using set_take_subset_set_take [of n "Suc n" "faults db"]
  by (auto simp: statements_run_def list_all_iff)

subsection \<open>ORDER BY sorts and keeps the rows\<close>

lemma mset_insert_by: "mset (insert_by le x xs) = add_mset x (mset xs)"
  by (induction xs) simp_all

lemma mset_order_by: "mset (order_by le xs) = mset xs"
  by (induction xs) (simp_all add: mset_insert_by)

lemma set_insert_by: "set (insert_by le x xs) = insert x (set xs)"
  by (induction xs) auto

lemma sorted_insert_by:
  assumes total: "\<And>a b. le a b \<or> le b a"
    and trans: "\<And>a b c. le a b \<Longrightarrow> le b c \<Longrightarrow> le a c"
  shows "sorted_wrt le xs \<Longrightarrow> sorted_wrt le (insert_by le x xs)"
proof (induction xs)
  case Nil
  then show ?case by simp
next
  case (Cons y ys)
  show ?case
  proof (cases "le x y")
    case True
    then have "\<forall>z\<in>set ys. le x z" using Cons.prems trans by auto
    then show ?thesis using True Cons.prems by simp
  next
    case False
    then have "le y x" using total by blast
    then show ?thesis using False Cons by (auto simp: set_insert_by)
  qed
qed

lemma sorted_order_by:
  assumes total: "\<And>a b. le a b \<or> le b a"
    and trans: "\<And>a b c. le a b \<Longrightarrow> le b c \<Longrightarrow> le a c"
  shows "sorted_wrt le (order_by le xs)"
proof (induction xs)
  case Nil
  show ?case by simp
next
  case (Cons x xs)
  show ?case using sorted_insert_by [of le, OF total trans Cons] by simp
qed

lemma sql_less_eq_total: "sql_less_eq a b \<or> sql_less_eq b a"
  by (cases a; cases b) auto

lemma sql_less_eq_trans: "sql_less_eq a b \<Longrightarrow> sql_less_eq b c \<Longrightarrow> sql_less_eq a c"
  by (cases a; cases b; cases c) auto

lemma streak_rows_sorted:
  "sorted_wrt (\<lambda>a b. sql_less_eq (e_completed_at b) (e_completed_at a)) (streak_rows habitId db)"
proof -
  have "sorted_wrt completed_at_desc (streak_rows habitId db)"
    unfolding streak_rows_def
  proof (rule sorted_order_by)
    show "completed_at_desc a b \<or> completed_at_desc b a" for a b :: "'a entry_row"
      using sql_less_eq_total by (auto simp: completed_at_desc_def)
    show "completed_at_desc a b \<Longrightarrow> completed_at_desc b c \<Longrightarrow> completed_at_desc a c"
      for a b c :: "'a entry_row"
      using sql_less_eq_trans by (auto simp: completed_at_desc_def)
  qed
  then show ?thesis by (simp add: completed_at_desc_def [abs_def])
qed

lemma streak_rows_mset:
  "mset (streak_rows habitId db) = mset (filter (\<lambda>e. e_habit_id e = habitId) (habit_entries db))"
  by (simp add: streak_rows_def mset_order_by)

lemma select_habits_sorted: "sorted_wrt priority_desc_created_at_desc (select_habits db)"
  unfolding select_habits_def
  by (rule sorted_order_by) (auto simp: priority_desc_created_at_desc_def)

lemma select_habits_mset: "mset (select_habits db) = mset (habits db)"
  by (simp add: select_habits_def mset_order_by)

subsection \<open>The scan\<close>

lemma spec_scan_Suc: "spec_scan c (Suc s) xs = Suc (spec_scan c s xs)"
  by (induction xs arbitrary: c s) simp_all

lemma spec_scan_bounds: "s \<le> spec_scan c s xs \<and> spec_scan c s xs \<le> s + length xs"
proof (induction xs arbitrary: c s)
  case Nil
  show ?case by simp
next
  case (Cons x xs)
  show ?case using Cons [where c = x and s = "Suc s"] by auto
qed

lemma spec_scan_append:
  "spec_scan c s (xs @ ys) =
     (if spec_scan c s xs = s + length xs then spec_scan (last (c # xs)) (s + length xs) ys
      else spec_scan c s xs)"
proof (induction xs arbitrary: c s)
  case Nil
  show ?case by simp
next
  case (Cons x xs)
  show ?case
  proof (cases "whole_days_between c x \<le> 1")
    case True
    then show ?thesis using Cons [where c = x and s = "Suc s"] by simp
  next
    case False
    then show ?thesis by simp
  qed
qed

lemma whole_days_same: "whole_days_between x x = 0"
  by (simp add: whole_days_between_def)

lemma spec_scan_duplicate:
  assumes "spec_scan c s (xs @ [x]) = s + length xs + 1"
  shows "spec_scan c s (xs @ x # x # ys) = Suc (spec_scan c s (xs @ x # ys))"
proof -
  have a: "spec_scan c s ((xs @ [x]) @ x # ys) = spec_scan x (s + length xs + 1) (x # ys)"
    using assms by (subst spec_scan_append) simp
  have b: "spec_scan c s ((xs @ [x]) @ ys) = spec_scan x (s + length xs + 1) ys"
    using assms by (subst spec_scan_append) simp
  have "spec_scan x (s + length xs + 1) (x # ys) = Suc (spec_scan x (s + length xs + 1) ys)"
    by (simp add: whole_days_same spec_scan_Suc)
  then show ?thesis using a b by simp
qed

lemma whole_days_local:
  "whole_days_between (setHours0 tz a) (setHours0 tz b) =
     (a + tz) div MS_PER_DAY - (b + tz) div MS_PER_DAY"
proof -
  have nz: "MS_PER_DAY \<noteq> 0" using MS_PER_DAY_pos by simp
  have "setHours0 tz a - setHours0 tz b =
          ((a + tz) div MS_PER_DAY - (b + tz) div MS_PER_DAY) * MS_PER_DAY"
    by (simp add: setHours0_def algebra_simps)
  then show ?thesis using nz by (simp add: whole_days_between_def)
qed

lemma today_gap:
  "(now + tz) div MS_PER_DAY - (now div MS_PER_DAY * MS_PER_DAY + tz) div MS_PER_DAY \<le> 1"
proof -
  define X where "X = now div MS_PER_DAY * MS_PER_DAY + tz"
  have pos: "0 < MS_PER_DAY" by (rule MS_PER_DAY_pos)
  have "now mod MS_PER_DAY < MS_PER_DAY" using pos by simp
  moreover have "now = now div MS_PER_DAY * MS_PER_DAY + now mod MS_PER_DAY" by simp
  ultimately have "now + tz \<le> X + MS_PER_DAY" unfolding X_def by linarith
  then have "(now + tz) div MS_PER_DAY \<le> (X + MS_PER_DAY) div MS_PER_DAY"
    using pos by (rule zdiv_mono1)
  moreover have "(X + MS_PER_DAY) div MS_PER_DAY = X div MS_PER_DAY + 1"
    using pos div_add_self2 [of MS_PER_DAY X] by linarith
  ultimately show ?thesis unfolding X_def by linarith
qed

lemma yesterday_gap:
  "(t * MS_PER_DAY + tz) div MS_PER_DAY - ((t - 1) * MS_PER_DAY + tz) div MS_PER_DAY = 1"
proof -
  define X where "X = t * MS_PER_DAY + tz"
  have nz: "MS_PER_DAY \<noteq> 0" using MS_PER_DAY_pos by simp
  have e1: "(t - 1) * MS_PER_DAY + tz = X - 1 * MS_PER_DAY"
    unfolding X_def by (simp add: algebra_simps)
  have e2: "(X - 1 * MS_PER_DAY) div MS_PER_DAY = X div MS_PER_DAY - 1"
    using nz by (rule div_diff_multiple)
  have "((t - 1) * MS_PER_DAY + tz) div MS_PER_DAY = X div MS_PER_DAY - 1"
    by (simp only: e1 e2)
  then show ?thesis unfolding X_def by linarith
qed

lemma spec_scan_local_days:
  "spec_scan (setHours0 tz c) s (map (setHours0 tz) ts) =
     spec_scan_days ((c + tz) div MS_PER_DAY) s (map (\<lambda>t. (t + tz) div MS_PER_DAY) ts)"
  by (induction ts arbitrary: c s) (simp_all add: whole_days_local)

lemma calculateStreak_entries_local_days:
  "calculateStreak_entries tz now rows =
     spec_streak_days ((now + tz) div MS_PER_DAY)
       (map (\<lambda>r. (new_Date r + tz) div MS_PER_DAY) rows)"
  using spec_scan_local_days [of tz now 0 "map new_Date rows"]
  by (simp add: calculateStreak_entries_spec spec_streak_def spec_streak_days_def comp_def)

lemma new_Date_calendar_date: "new_Date r div MS_PER_DAY = calendar_date r"
  using MS_PER_DAY_pos by (cases r) simp_all

lemma HabitRepository_calculateStreak_entries_days:
  "HabitRepository_calculateStreak_entries now rows =
     spec_streak_days (now div MS_PER_DAY) (map calendar_date rows)"
  using calculateStreak_entries_local_days [of 0 now rows]
  by (simp add: calculateStreak_entries_utc new_Date_calendar_date)

lemma local_day_west_of_utc:
  assumes "- MS_PER_DAY \<le> tz" and "tz < 0"
  shows "(new_Date r + tz) div MS_PER_DAY = calendar_date r - 1"
proof -
  have nz: "MS_PER_DAY \<noteq> 0" using MS_PER_DAY_pos by simp
  have e: "new_Date r = calendar_date r * MS_PER_DAY" by (cases r) simp_all
  have "(tz + MS_PER_DAY) div MS_PER_DAY = 0" using assms by simp
  moreover have "(tz + MS_PER_DAY) div MS_PER_DAY = tz div MS_PER_DAY + 1"
    using nz by (rule div_add_self2)
  ultimately have "tz div MS_PER_DAY = - 1" by linarith
  moreover have "(tz + calendar_date r * MS_PER_DAY) div MS_PER_DAY = calendar_date r + tz div MS_PER_DAY"
    using nz by (rule div_mult_self1)
  ultimately show ?thesis by (simp add: e add.commute)
qed

lemma local_day_east_of_utc:
  assumes "0 \<le> tz" and "tz < MS_PER_DAY"
  shows "(new_Date r + tz) div MS_PER_DAY = calendar_date r"
proof -
  have nz: "MS_PER_DAY \<noteq> 0" using MS_PER_DAY_pos by simp
  have e: "new_Date r = calendar_date r * MS_PER_DAY" by (cases r) simp_all
  have "tz div MS_PER_DAY = 0" using assms by simp
  moreover have "(tz + calendar_date r * MS_PER_DAY) div MS_PER_DAY = calendar_date r + tz div MS_PER_DAY"
    using nz by (rule div_mult_self1)
  ultimately show ?thesis by (simp add: e add.commute)
qed

text \<open>
  West of UTC, index.ts takes every entry for the day before its calendar date: with the
  local day of \<open>now\<close> equal to its UTC day, an entry dated yesterday is two days from the
  cursor and ends the scan at once; the repository counts it.
\<close>

lemma yesterday_west_of_utc:
  assumes "- MS_PER_DAY \<le> tz" and "tz < 0"
    and "(now + tz) div MS_PER_DAY = now div MS_PER_DAY"
  shows "calculateStreak_entries tz now [Some (now div MS_PER_DAY - 1)] = 0
       \<and> HabitRepository_calculateStreak_entries now [Some (now div MS_PER_DAY - 1)] = 1
       \<and> spec_streak_days (now div MS_PER_DAY) [now div MS_PER_DAY - 1] = 1"
  using local_day_west_of_utc [OF assms(1,2), of "Some (now div MS_PER_DAY - 1)"] assms(3)
  by (simp add: calculateStreak_entries_local_days HabitRepository_calculateStreak_entries_days
      spec_streak_days_def)

lemma today_today_yesterday:
  "calculateStreak_entries tz now
     [Some (now div MS_PER_DAY), Some (now div MS_PER_DAY), Some (now div MS_PER_DAY - 1)] = 3"
  using today_gap [of now tz] yesterday_gap [of "now div MS_PER_DAY" tz]
  by (simp add: calculateStreak_entries_spec spec_streak_def whole_days_local whole_days_same)

lemma calculateStreak_runs:
  "statements_run (Suc n) db \<Longrightarrow>
     calculateStreak sql_date tz now habitId db =
       (Inr (calculateStreak_entries tz now (streak_query sql_date habitId db)),
        db\<lparr>faults := tl (faults db)\<rparr>)"
  by (simp add: calculateStreak_def db_query_runs)

lemma HabitRepository_calculateStreak_runs:
  "statements_run (Suc n) db \<Longrightarrow>
     HabitRepository_calculateStreak sql_date now habitId db =
       (Inr (HabitRepository_calculateStreak_entries now (streak_query sql_date habitId db)),
        db\<lparr>faults := tl (faults db)\<rparr>)"
  by (simp add: HabitRepository_calculateStreak_def db_query_runs)

lemma calculateStreak_rejects:
  "faults db = Some e # fs \<Longrightarrow>
     calculateStreak sql_date tz now habitId db = (Inr 0, db\<lparr>faults := fs\<rparr>)"
  by (simp add: calculateStreak_def db_query_rejects)

lemma HabitRepository_calculateStreak_rejects:
  "faults db = Some e # fs \<Longrightarrow>
     HabitRepository_calculateStreak sql_date now habitId db = (Inr 0, db\<lparr>faults := fs\<rparr>)"
  by (simp add: HabitRepository_calculateStreak_def db_query_rejects)

lemma runs_or_rejects: "statements_run (Suc 0) db \<or> (\<exists>e fs. faults db = Some e # fs)"
  using not_statements_run_1 by blast

subsection \<open>Creating and fetching\<close>

lemma foldr_max_ge: "x \<in> set xs \<Longrightarrow> x \<le> foldr max xs (s :: int)"
  by (induction xs) auto

lemma find_append_fresh:
  "\<forall>h \<in> set hs. h_id h \<noteq> i \<Longrightarrow> h_id row = i \<Longrightarrow>
     find (\<lambda>h. h_id h = i) (hs @ [row]) = Some row"
  by (induction hs) auto

lemma select_habit_None: "(select_habit i db = None) = (\<forall>h \<in> set (habits db). h_id h \<noteq> i)"
  by (auto simp: select_habit_def find_None_iff)

lemma insert_habit_fetch:
  "select_habit (fst (insert_habit ts nm descr freq tdays prio cat db))
     (snd (insert_habit ts nm descr freq tdays prio cat db)\<lparr>faults := fs\<rparr>) =
   Some \<lparr>h_id = foldr max (map h_id (habits db)) (habits_seq db) + 1, h_name = nm,
         h_description = descr, h_frequency = freq, h_target_days = tdays, h_priority = prio,
         h_category = cat, h_created_at = ts\<rparr>"
proof -
  have "\<forall>h \<in> set (habits db). h_id h \<noteq> foldr max (map h_id (habits db)) (habits_seq db) + 1"
  proof
    fix h assume "h \<in> set (habits db)"
    then have "h_id h \<le> foldr max (map h_id (habits db)) (habits_seq db)"
      by (intro foldr_max_ge) simp
    then show "h_id h \<noteq> foldr max (map h_id (habits db)) (habits_seq db) + 1" by simp
  qed
  then show ?thesis
    by (simp add: insert_habit_def select_habit_def Let_def find_append_fresh)
qed

lemma insert_habit_faults:
  "faults (snd (insert_habit ts nm descr freq tdays prio cat db)) = faults db"
  by (simp add: insert_habit_def Let_def)

lemma statements_run_2:
  "statements_run 2 db \<Longrightarrow> statements_run (Suc 0) db \<and>
     statements_run (Suc 0) (db\<lparr>faults := tl (faults db)\<rparr>)"
  using statements_run_tl [of 1 db] statements_run_mono [of 1 db]
  by (simp add: numeral_2_eq_2)

lemma create_then_findById_runs:
  assumes "statements_run 2 db"
  shows "create_then_findById ts dto db =
     Inr (Some \<lparr>h_id = foldr max (map h_id (habits db)) (habits_seq db) + 1, h_name = name dto,
         h_description = description dto, h_frequency = frequency dto,
         h_target_days = JSON_stringify (target_days dto), h_priority = priority dto,
         h_category = category dto, h_created_at = ts\<rparr>)"
proof -
  let ?ins = "insert_habit ts (name dto) (description dto) (frequency dto)
                 (JSON_stringify (target_days dto)) (priority dto) (category dto)"
  let ?db0 = "db\<lparr>faults := tl (faults db)\<rparr>"
  have r1: "statements_run (Suc 0) db" and r2: "statements_run (Suc 0) ?db0"
    using statements_run_2 [OF assms] by simp_all
  have c: "HabitRepository_create ts dto db = (Inr (fst (?ins ?db0)), snd (?ins ?db0))"
    by (simp add: HabitRepository_create_def db_run_runs [OF r1])
  have f: "faults (snd (?ins ?db0)) = faults ?db0" by (rule insert_habit_faults)
  have r3: "statements_run (Suc 0) (snd (?ins ?db0))"
    using r2 f by (simp add: statements_run_def)
  have "fst (HabitRepository_findById (fst (?ins ?db0)) (snd (?ins ?db0))) =
          Inr (select_habit (fst (?ins ?db0)) (snd (?ins ?db0)))"
    by (simp add: HabitRepository_findById_def db_query_runs [OF r3])
  moreover have "select_habit (fst (?ins ?db0)) (snd (?ins ?db0)) =
     Some \<lparr>h_id = foldr max (map h_id (habits db)) (habits_seq db) + 1, h_name = name dto,
         h_description = description dto, h_frequency = frequency dto,
         h_target_days = JSON_stringify (target_days dto), h_priority = priority dto,
         h_category = category dto, h_created_at = ts\<rparr>"
    using insert_habit_fetch [of ts "name dto" "description dto" "frequency dto"
        "JSON_stringify (target_days dto)" "priority dto" "category dto" ?db0 "faults (snd (?ins ?db0))"]
    by simp
  ultimately show ?thesis by (simp add: create_then_findById_def c)
qed

lemma createHabit_then_getHabitById_runs:
  assumes "statements_run 2 db"
  shows "createHabit_then_getHabitById ts dto db =
     Json \<lparr>h_id = foldr max (map h_id (habits db)) (habits_seq db) + 1, h_name = name dto,
         h_description = description dto, h_frequency = frequency dto,
         h_target_days = JSON_stringify (target_days dto), h_priority = priority dto,
         h_category = category dto, h_created_at = ts\<rparr>"
proof -
  let ?ins = "insert_habit ts (name dto) (description dto) (frequency dto)
                 (JSON_stringify (target_days dto)) (priority dto) (category dto)"
  let ?db0 = "db\<lparr>faults := tl (faults db)\<rparr>"
  have r1: "statements_run (Suc 0) db" and r2: "statements_run (Suc 0) ?db0"
    using statements_run_2 [OF assms] by simp_all
  have c: "createHabit ts dto db = (Json (fst (?ins ?db0)), snd (?ins ?db0))"
    by (simp add: createHabit_def db_run_runs [OF r1])
  have f: "faults (snd (?ins ?db0)) = faults ?db0" by (rule insert_habit_faults)
  have r3: "statements_run (Suc 0) (snd (?ins ?db0))"
    using r2 f by (simp add: statements_run_def)
  have s: "select_habit (fst (?ins ?db0)) (snd (?ins ?db0)) =
     Some \<lparr>h_id = foldr max (map h_id (habits db)) (habits_seq db) + 1, h_name = name dto,
         h_description = description dto, h_frequency = frequency dto,
         h_target_days = JSON_stringify (target_days dto), h_priority = priority dto,
         h_category = category dto, h_created_at = ts\<rparr>"
    using insert_habit_fetch [of ts "name dto" "description dto" "frequency dto"
        "JSON_stringify (target_days dto)" "priority dto" "category dto" ?db0 "faults (snd (?ins ?db0))"]
    by simp
  have "fst (getHabitById (fst (?ins ?db0)) (snd (?ins ?db0))) =
     Json \<lparr>h_id = foldr max (map h_id (habits db)) (habits_seq db) + 1, h_name = name dto,
         h_description = description dto, h_frequency = frequency dto,
         h_target_days = JSON_stringify (target_days dto), h_priority = priority dto,
         h_category = category dto, h_created_at = ts\<rparr>"
    by (simp add: getHabitById_def db_query_runs [OF r3] s)
  then show ?thesis by (simp add: createHabit_then_getHabitById_def c)
qed

subsection \<open>Deleting\<close>

lemma HabitRepository_delete_cases:
  "HabitRepository_delete i db =
     (case faults db of
        [] \<Rightarrow> (Inr (), db\<lparr>habit_entries := filter (\<lambda>e. e_habit_id e \<noteq> i) (habit_entries db),
                         habits := filter (\<lambda>h. h_id h \<noteq> i) (habits db)\<rparr>)
      | [None] \<Rightarrow> (Inr (), db\<lparr>habit_entries := filter (\<lambda>e. e_habit_id e \<noteq> i) (habit_entries db),
                         habits := filter (\<lambda>h. h_id h \<noteq> i) (habits db), faults := []\<rparr>)
      | None # None # fs \<Rightarrow>
          (Inr (), db\<lparr>habit_entries := filter (\<lambda>e. e_habit_id e \<noteq> i) (habit_entries db),
                       habits := filter (\<lambda>h. h_id h \<noteq> i) (habits db), faults := fs\<rparr>)
      | None # Some e # fs \<Rightarrow>
          (Inl (Error (''Failed to delete habit with id '' @ Number_toString i)),
           db\<lparr>habit_entries := filter (\<lambda>e. e_habit_id e \<noteq> i) (habit_entries db), faults := fs\<rparr>)
      | Some e # fs \<Rightarrow>
          (Inl (Error (''Failed to delete habit with id '' @ Number_toString i)), db\<lparr>faults := fs\<rparr>))"
  by (auto simp: HabitRepository_delete_def db_run_def delete_habit_entries_def delete_habit_row_def
      split: list.splits option.splits)

lemma deleteHabit_cases:
  "deleteHabit i db =
     (case faults db of
        [] \<Rightarrow> (Json Success, db\<lparr>habit_entries := filter (\<lambda>e. e_habit_id e \<noteq> i) (habit_entries db),
                         habits := filter (\<lambda>h. h_id h \<noteq> i) (habits db)\<rparr>)
      | [None] \<Rightarrow> (Json Success, db\<lparr>habit_entries := filter (\<lambda>e. e_habit_id e \<noteq> i) (habit_entries db),
                         habits := filter (\<lambda>h. h_id h \<noteq> i) (habits db), faults := []\<rparr>)
      | None # None # fs \<Rightarrow>
          (Json Success, db\<lparr>habit_entries := filter (\<lambda>e. e_habit_id e \<noteq> i) (habit_entries db),
                       habits := filter (\<lambda>h. h_id h \<noteq> i) (habits db), faults := fs\<rparr>)
      | None # Some e # fs \<Rightarrow>
          (Failure 500 ''Failed to delete habit'' (Some (details e)),
           db\<lparr>habit_entries := filter (\<lambda>e. e_habit_id e \<noteq> i) (habit_entries db), faults := fs\<rparr>)
      | Some e # fs \<Rightarrow>
          (Failure 500 ''Failed to delete habit'' (Some (details e)), db\<lparr>faults := fs\<rparr>))"
  by (auto simp: deleteHabit_def db_run_def delete_habit_entries_def delete_habit_row_def
      split: list.splits option.splits)

subsection \<open>Completing\<close>

lemma or_default_cases:
  "or_default None d = d" "or_default (Some []) d = d" "s \<noteq> [] \<Longrightarrow> or_default (Some s) d = s"
  by (simp_all add: or_default_def)




subsection \<open>Listing\<close>

lemma getHabits_loop_runs:
  "statements_run (2 * length hs) db \<Longrightarrow>
     \<exists>result db'. getHabits_loop sql_date tz now window_start hs db = (Inr result, db')
        \<and> map habit result = hs"
proof (induction hs arbitrary: db)
  case Nil
  show ?case by simp
next
  case (Cons h hs)
  let ?db1 = "db\<lparr>faults := tl (faults db)\<rparr>"
  let ?db2 = "?db1\<lparr>faults := tl (faults ?db1)\<rparr>"
  have r0: "statements_run (Suc (Suc (2 * length hs))) db" using Cons.prems by simp
  have r1: "statements_run (Suc (2 * length hs)) ?db1" using r0 by (rule statements_run_tl)
  have r2: "statements_run (2 * length hs) ?db2" using r1 by (rule statements_run_tl)
  obtain result db' where
    ih: "getHabits_loop sql_date tz now window_start hs ?db2 = (Inr result, db')"
      "map habit result = hs"
    using Cons.IH [OF r2] by blast
  show ?case
    using ih
    by (simp add: db_query_runs [OF r0] calculateStreak_runs [OF r1])
qed

lemma getHabits_runs:
  assumes "statements_run (1 + 2 * length (habits db)) db"
  shows "\<exists>result. fst (getHabits sql_date tz now window_start db) = Json result
           \<and> map habit result = select_habits db"
proof -
  let ?db1 = "db\<lparr>faults := tl (faults db)\<rparr>"
  have n: "length (select_habits db) = length (habits db)"
    using select_habits_mset [of db] by (metis size_mset)
  have r0: "statements_run (Suc (2 * length (select_habits db))) db" using assms n by simp
  have r1: "statements_run (2 * length (select_habits db)) ?db1" using r0 by (rule statements_run_tl)
  obtain result db' where
    "getHabits_loop sql_date tz now window_start (select_habits db) ?db1 = (Inr result, db')"
    "map habit result = select_habits db"
    using getHabits_loop_runs [OF r1] by blast
  then show ?thesis
    by (simp add: getHabits_def db_query_runs [OF r0])
qed

section \<open>Streak claims\<close>

text \<open>
  The repository's loop does follow the algorithm of the specification, on the UTC
  calendar dates the query returns and the UTC day of \<open>now\<close>: its cursor starts at \<open>now\<close>
  itself, and the floor of the first gap makes up for the missing normalization. So does
  index.ts where local time is UTC. In general index.ts runs the scan from the local day of
  \<open>now\<close> on the local days of the entries' UTC midnights, which at and east of UTC (under a
  day) are the calendar dates and west of UTC the days before them.
\<close>

lemma calculateStreak_follows_spec_in_utc:
  assumes "statements_run 1 db"
  shows "fst (HabitRepository_calculateStreak sql_date now habitId db) =
           Inr (spec_streak_days (now div MS_PER_DAY)
                  (map calendar_date (streak_query sql_date habitId db)))
       \<and> fst (calculateStreak sql_date 0 now habitId db) =
           Inr (spec_streak_days (now div MS_PER_DAY)
                  (map calendar_date (streak_query sql_date habitId db)))"
proof -
  have r: "statements_run (Suc 0) db" using assms by simp
  show ?thesis
    by (simp add: calculateStreak_runs [OF r] HabitRepository_calculateStreak_runs [OF r]
        calculateStreak_entries_utc HabitRepository_calculateStreak_entries_days)
qed

text \<open>
  C1. index.ts does not follow the algorithm west of UTC. On a server five hours west of
  UTC, at 2024-01-10T12:00:00Z (07:00 local time of the same day), habit 2 has one entry,
  completed on 2024-01-09: the query returns the date 2024-01-09 (day 19731), the current
  date is 2024-01-10 (day 19732) in local time and in UTC, and the scan of the
  specification counts the entry, its gap being 1. \<open>calculateStreak\<close> of index.ts reads
  the date as midnight UTC, \<open>setHours(0, 0, 0, 0)\<close> moves that to the local midnight
  before it, the start of 2024-01-08, two days from the cursor, and the result is 0.
  \<open>HabitRepository.calculateStreak\<close> returns 1 on the same input.
\<close>

theorem calculateStreak_loses_yesterday_west_of_utc:
  "fst (calculateStreak example_date (- (5 * 60 * 60 * 1000)) example_now 2 example_db) = Inr 0
   \<and> streak_query example_date 2 example_db = [Some 19731]
   \<and> (example_now + (- (5 * 60 * 60 * 1000))) div MS_PER_DAY = 19732
   \<and> example_now div MS_PER_DAY = 19732
   \<and> spec_streak_days 19732 (map calendar_date (streak_query example_date 2 example_db)) = 1
   \<and> setHours0 (- (5 * 60 * 60 * 1000)) (new_Date (Some 19731)) =
       19730 * MS_PER_DAY + 5 * 60 * 60 * 1000
   \<and> fst (HabitRepository_calculateStreak example_date example_now 2 example_db) = Inr 1"
  by code_simp

text \<open>
  C2. A second entry of the same day is counted again. In both implementations: when the
  run reaches an entry \<open>d\<close> (every entry up to and including it is counted), a second row
  with the same date right after it makes the streak one larger than without it. Entries
  dated today, today, yesterday (today the UTC day of \<open>now\<close>, as \<open>date()\<close> gives it) produce
  3, in every time zone.
\<close>

theorem duplicate_day_counted_again:
  "(calculateStreak_entries tz now (pre @ [d]) = length pre + 1 \<longrightarrow>
      calculateStreak_entries tz now (pre @ d # d # rest) =
        Suc (calculateStreak_entries tz now (pre @ d # rest)))
   \<and> (HabitRepository_calculateStreak_entries now (pre @ [d]) = length pre + 1 \<longrightarrow>
      HabitRepository_calculateStreak_entries now (pre @ d # d # rest) =
        Suc (HabitRepository_calculateStreak_entries now (pre @ d # rest)))
   \<and> calculateStreak_entries tz now
        [Some (now div MS_PER_DAY), Some (now div MS_PER_DAY), Some (now div MS_PER_DAY - 1)] = 3
   \<and> HabitRepository_calculateStreak_entries now
        [Some (now div MS_PER_DAY), Some (now div MS_PER_DAY), Some (now div MS_PER_DAY - 1)] = 3"
proof -
  have a: "calculateStreak_entries tz now (pre @ d # d # rest) =
        Suc (calculateStreak_entries tz now (pre @ d # rest))"
    if "calculateStreak_entries tz now (pre @ [d]) = length pre + 1"
    using that spec_scan_duplicate [of "setHours0 tz now" 0
        "map (\<lambda>r. setHours0 tz (new_Date r)) pre" "setHours0 tz (new_Date d)"
        "map (\<lambda>r. setHours0 tz (new_Date r)) rest"]
    by (simp add: calculateStreak_entries_spec spec_streak_def del: spec_scan.simps)
  have b: "HabitRepository_calculateStreak_entries now (pre @ d # d # rest) =
        Suc (HabitRepository_calculateStreak_entries now (pre @ d # rest))"
    if "HabitRepository_calculateStreak_entries now (pre @ [d]) = length pre + 1"
    using that spec_scan_duplicate [of "setHours0 0 now" 0
        "map new_Date pre" "new_Date d" "map new_Date rest"]
    by (simp add: HabitRepository_calculateStreak_entries_spec spec_streak_def del: spec_scan.simps)
  have c: "HabitRepository_calculateStreak_entries now
        [Some (now div MS_PER_DAY), Some (now div MS_PER_DAY), Some (now div MS_PER_DAY - 1)] = 3"
    using today_today_yesterday [of 0 now] by (simp only: calculateStreak_entries_utc)
  show ?thesis using a b c today_today_yesterday by blast
qed

text \<open>At the example clock: one entry of today counts 1, today and yesterday 2, with today doubled 3.\<close>

theorem duplicate_day_counted_again_witness:
  "calculateStreak_entries 0 example_now ([] @ [Some 19732]) = length ([] :: int option list) + 1
   \<and> calculateStreak_entries 0 example_now ([] @ Some 19732 # Some 19732 # [Some 19731]) = 3
   \<and> calculateStreak_entries 0 example_now ([] @ Some 19732 # [Some 19731]) = 2
   \<and> HabitRepository_calculateStreak_entries example_now ([] @ [Some 19732]) = length ([] :: int option list) + 1
   \<and> HabitRepository_calculateStreak_entries example_now ([] @ Some 19732 # Some 19732 # [Some 19731]) = 3"
proof -
  have n: "example_now div MS_PER_DAY = 19732"
    by (simp add: example_now_def MS_PER_DAY_def)
  have one: "calculateStreak_entries 0 example_now ([] @ [Some 19732]) = length ([] :: int option list) + 1"
    by (simp add: calculateStreak_entries_spec spec_streak_def setHours0_def
        whole_days_between_def example_now_def MS_PER_DAY_def)
  have two: "calculateStreak_entries 0 example_now ([] @ Some 19732 # [Some 19731]) = 2"
    by (simp add: calculateStreak_entries_spec spec_streak_def setHours0_def
        whole_days_between_def example_now_def MS_PER_DAY_def)
  have one': "HabitRepository_calculateStreak_entries example_now ([] @ [Some 19732]) = length ([] :: int option list) + 1"
    using one by (simp only: calculateStreak_entries_utc)
  have two': "HabitRepository_calculateStreak_entries example_now ([] @ Some 19732 # [Some 19731]) = 2"
    using two by (simp only: calculateStreak_entries_utc)
  show ?thesis
    using duplicate_day_counted_again [of 0 example_now "[]" "Some 19732" "[Some 19731]"]
      one two one' two' by simp
qed

text \<open>
  C3. For a habit with no completion-entries both implementations return 0 (whether the
  query runs or rejects).
\<close>

theorem no_entries_streak_zero:
  assumes "\<forall>e \<in> set (habit_entries db). e_habit_id e \<noteq> habitId"
  shows "fst (calculateStreak sql_date tz now habitId db) = Inr 0
       \<and> fst (HabitRepository_calculateStreak sql_date now habitId db) = Inr 0"
proof -
  have "filter (\<lambda>e. e_habit_id e = habitId) (habit_entries db) = []"
    using assms by (simp add: filter_empty_conv)
  then have q: "streak_query sql_date habitId db = []"
    by (simp add: streak_query_def streak_rows_def)
  show ?thesis
    using runs_or_rejects [of db]
  proof
    assume r: "statements_run (Suc 0) db"
    show ?thesis
      by (simp add: calculateStreak_runs [OF r] HabitRepository_calculateStreak_runs [OF r] q
          calculateStreak_entries_spec HabitRepository_calculateStreak_entries_spec spec_streak_def)
  next
    assume "\<exists>e fs. faults db = Some e # fs"
    then obtain e fs where f: "faults db = Some e # fs" by blast
    show ?thesis
      by (simp add: calculateStreak_rejects [OF f] HabitRepository_calculateStreak_rejects [OF f])
  qed
qed

text \<open>At the example: no entry refers to habit 3.\<close>

theorem no_entries_streak_zero_witness:
  "map e_habit_id (habit_entries example_db) = [1, 2, 1, 1]
   \<and> fst (calculateStreak example_date 0 example_now 3 example_db) = Inr 0
   \<and> fst (HabitRepository_calculateStreak example_date example_now 3 example_db) = Inr 0"
proof -
  have h: "\<forall>e \<in> set (habit_entries example_db). e_habit_id e \<noteq> 3"
    by (simp add: example_db_def)
  have m: "map e_habit_id (habit_entries example_db) = [1, 2, 1, 1]"
    by (simp add: example_db_def)
  show ?thesis
    using m no_entries_streak_zero [OF h, of example_date 0 example_now] by blast
qed

text \<open>
  C4. The streak computation never throws: both implementations return a number on every
  input, and when the entries query rejects, with whatever thrown value, that number is 0.
\<close>

theorem calculateStreak_swallows_failure:
  "(\<exists>n. fst (calculateStreak sql_date tz now habitId db) = Inr n)
   \<and> (\<exists>n. fst (HabitRepository_calculateStreak sql_date now habitId db) = Inr n)
   \<and> (faults db = Some e # fs \<longrightarrow>
        fst (calculateStreak sql_date tz now habitId db) = Inr 0
        \<and> fst (HabitRepository_calculateStreak sql_date now habitId db) = Inr 0)"
proof -
  have a: "\<exists>n. fst (calculateStreak sql_date tz now habitId db) = Inr n"
    by (cases "db_query (streak_query sql_date habitId) db")
       (auto simp: calculateStreak_def split: sum.splits)
  have b: "\<exists>n. fst (HabitRepository_calculateStreak sql_date now habitId db) = Inr n"
    by (cases "db_query (streak_query sql_date habitId) db")
       (auto simp: HabitRepository_calculateStreak_def split: sum.splits)
  show ?thesis
    using a b by (simp add: calculateStreak_rejects HabitRepository_calculateStreak_rejects)
qed

text \<open>At the example, with the entries query scheduled to reject.\<close>

theorem calculateStreak_swallows_failure_witness:
  "faults (example_db\<lparr>faults := [Some (Error ''SQLITE_BUSY: database is locked'')]\<rparr>) =
      Some (Error ''SQLITE_BUSY: database is locked'') # []
   \<and> fst (calculateStreak example_date 0 example_now 1
            (example_db\<lparr>faults := [Some (Error ''SQLITE_BUSY: database is locked'')]\<rparr>)) = Inr 0
   \<and> fst (HabitRepository_calculateStreak example_date example_now 1
            (example_db\<lparr>faults := [Some (Error ''SQLITE_BUSY: database is locked'')]\<rparr>)) = Inr 0"
  using calculateStreak_swallows_failure [of example_date 0 example_now 1
      "example_db\<lparr>faults := [Some (Error ''SQLITE_BUSY: database is locked'')]\<rparr>"
      "Error ''SQLITE_BUSY: database is locked''" "[]"]
  by simp

text \<open>
  On a server whose local time zone is UTC (\<open>tz = 0\<close>) the two implementations return the
  same result and leave the same database, for every entry list and every clock reading:
  there the missing normalization of the starting cursor in the repository changes
  nothing.
\<close>

lemma streaks_agree_in_utc:
  "calculateStreak sql_date 0 now habitId db =
     HabitRepository_calculateStreak sql_date now habitId db"
  by (simp add: calculateStreak_def HabitRepository_calculateStreak_def calculateStreak_entries_utc
      split: prod.splits sum.splits)

text \<open>
  C10. The two implementations do not compute equal results west of UTC. Five hours west,
  at 2024-01-10T12:00:00Z, with one entry dated 2024-01-09, the day before in local time
  and in UTC: index.ts returns 0 and the repository returns 1. The normalization index.ts
  adds is the difference: applied to an entry date read as midnight UTC, local
  \<open>setHours(0, 0, 0, 0)\<close> puts it a day early.
\<close>

theorem streaks_differ_west_of_utc:
  "fst (calculateStreak example_date (- (5 * 60 * 60 * 1000)) example_now 2 example_db)
     \<noteq> fst (HabitRepository_calculateStreak example_date example_now 2 example_db)
   \<and> fst (calculateStreak example_date (- (5 * 60 * 60 * 1000)) example_now 2 example_db) = Inr 0
   \<and> fst (HabitRepository_calculateStreak example_date example_now 2 example_db) = Inr 1"
  by code_simp

text \<open>
  East of UTC the entry dates are the calendar dates in both, and the two differ only in
  the current date, local in index.ts and UTC in the repository: two hours east, at
  2024-01-10T23:00:00Z (local 2024-01-11 01:00), index.ts starts from 2024-01-11 and
  returns 0 on the entry dated 2024-01-09, the repository starts from 2024-01-10 and
  returns 1.
\<close>

lemma streaks_differ_east_of_utc:
  "fst (calculateStreak example_date (2 * 60 * 60 * 1000) (example_now + 11 * 60 * 60 * 1000) 2
          example_db) = Inr 0
   \<and> fst (HabitRepository_calculateStreak example_date (example_now + 11 * 60 * 60 * 1000) 2
          example_db) = Inr 1"
  by code_simp

section \<open>Persistence claims\<close>

text \<open>
  C5. The round trip of a habit. At the example, creating the habit with
  \<open>target_days = ['monday', 'wednesday']\<close> and fetching it by the returned identifier
  returns name, description, frequency, priority and category as supplied, and
  \<open>target_days\<close> as the JSON text \<open>["monday","wednesday"]\<close> that \<open>create\<close> stored: a string,
  not the array of weekday names supplied. Nothing on the read path parses the text back,
  in the repository or in the handlers.
\<close>

theorem created_habit_target_days_is_text:
  \<open>create_then_findById ''2024-01-10 12:00:00'' example_habit example_db =
     Inr (Some \<lparr>h_id = 3, h_name = ''Stretch'', h_description = ''Ten minutes'',
                h_frequency = ''custom'', h_target_days = ''["monday","wednesday"]'',
                h_priority = 2, h_category = ''body'', h_created_at = ''2024-01-10 12:00:00''\<rparr>)
   \<and> createHabit_then_getHabitById ''2024-01-10 12:00:00'' example_habit example_db =
     Json \<lparr>h_id = 3, h_name = ''Stretch'', h_description = ''Ten minutes'',
           h_frequency = ''custom'', h_target_days = ''["monday","wednesday"]'',
           h_priority = 2, h_category = ''body'', h_created_at = ''2024-01-10 12:00:00''\<rparr>
   \<and> map_sum id (map_option Habit_target_days)
         (create_then_findById ''2024-01-10 12:00:00'' example_habit example_db) =
       Inr (Some (JSString ''["monday","wednesday"]''))
   \<and> map_sum id (map_option Habit_target_days)
         (create_then_findById ''2024-01-10 12:00:00'' example_habit example_db) \<noteq>
       Inr (Some (JSStringArray (target_days example_habit)))\<close>
proof -
  have r: "statements_run 2 example_db" by (simp add: statements_run_def example_db_def)
  have j: \<open>JSON_stringify (target_days example_habit) = ''["monday","wednesday"]''\<close>
    by (simp add: example_habit_def JSON_stringify_def json_quote_def json_escape_def)
  have m: "foldr max (map h_id (habits example_db)) (habits_seq example_db) + 1 = 3"
    by (simp add: example_db_def)
  show ?thesis
    unfolding create_then_findById_runs [OF r] createHabit_then_getHabitById_runs [OF r] j m
    by (simp add: example_habit_def Habit_target_days_def)
qed

text \<open>
  C6. Deleting a habit. When \<open>HabitRepository.delete\<close> or the handler \<open>deleteHabit\<close>
  succeeds, the entries left are the entries of the other habits and the habits left are
  the other habits, each unchanged and in place, and no habit has the identifier any more.
  The entries go first: when the first statement runs and the second rejects, the entries
  of the habit are gone and its row is still there. When both statements run, both
  operations succeed.
\<close>

theorem delete_removes_habit_and_its_entries:
  "(fst (HabitRepository_delete i db) = Inr () \<longrightarrow>
      habit_entries (snd (HabitRepository_delete i db)) =
        filter (\<lambda>e. e_habit_id e \<noteq> i) (habit_entries db)
      \<and> habits (snd (HabitRepository_delete i db)) = filter (\<lambda>h. h_id h \<noteq> i) (habits db)
      \<and> select_habit i (snd (HabitRepository_delete i db)) = None)
   \<and> (fst (deleteHabit i db) = Json Success \<longrightarrow>
      habit_entries (snd (deleteHabit i db)) = filter (\<lambda>e. e_habit_id e \<noteq> i) (habit_entries db)
      \<and> habits (snd (deleteHabit i db)) = filter (\<lambda>h. h_id h \<noteq> i) (habits db)
      \<and> select_habit i (snd (deleteHabit i db)) = None)
   \<and> (faults db = None # Some e # fs \<longrightarrow>
      habit_entries (snd (deleteHabit i db)) = filter (\<lambda>e. e_habit_id e \<noteq> i) (habit_entries db)
      \<and> habits (snd (deleteHabit i db)) = habits db
      \<and> habit_entries (snd (HabitRepository_delete i db)) =
           filter (\<lambda>e. e_habit_id e \<noteq> i) (habit_entries db)
      \<and> habits (snd (HabitRepository_delete i db)) = habits db)
   \<and> (statements_run 2 db \<longrightarrow>
      fst (HabitRepository_delete i db) = Inr () \<and> fst (deleteHabit i db) = Json Success)"
proof -
  have a: "fst (HabitRepository_delete i db) = Inr () \<longrightarrow>
      habit_entries (snd (HabitRepository_delete i db)) =
        filter (\<lambda>e. e_habit_id e \<noteq> i) (habit_entries db)
      \<and> habits (snd (HabitRepository_delete i db)) = filter (\<lambda>h. h_id h \<noteq> i) (habits db)
      \<and> select_habit i (snd (HabitRepository_delete i db)) = None"
    by (auto simp: HabitRepository_delete_cases select_habit_None split: list.splits option.splits)
  have b: "fst (deleteHabit i db) = Json Success \<longrightarrow>
      habit_entries (snd (deleteHabit i db)) = filter (\<lambda>e. e_habit_id e \<noteq> i) (habit_entries db)
      \<and> habits (snd (deleteHabit i db)) = filter (\<lambda>h. h_id h \<noteq> i) (habits db)
      \<and> select_habit i (snd (deleteHabit i db)) = None"
    by (auto simp: deleteHabit_cases select_habit_None split: list.splits option.splits)
  have c: "faults db = None # Some e # fs \<longrightarrow>
      habit_entries (snd (deleteHabit i db)) = filter (\<lambda>e. e_habit_id e \<noteq> i) (habit_entries db)
      \<and> habits (snd (deleteHabit i db)) = habits db
      \<and> habit_entries (snd (HabitRepository_delete i db)) =
           filter (\<lambda>e. e_habit_id e \<noteq> i) (habit_entries db)
      \<and> habits (snd (HabitRepository_delete i db)) = habits db"
    by (simp add: deleteHabit_cases HabitRepository_delete_cases)
  have d: "statements_run 2 db \<longrightarrow>
      fst (HabitRepository_delete i db) = Inr () \<and> fst (deleteHabit i db) = Json Success"
    by (auto simp: statements_run_def deleteHabit_cases HabitRepository_delete_cases numeral_2_eq_2
        split: list.splits option.splits)
  show ?thesis using a b c d by blast
qed

text \<open>At the example: deleting habit 1 leaves habit 2 and its one entry.\<close>

theorem delete_removes_habit_and_its_entries_witness:
  "fst (HabitRepository_delete 1 example_db) = Inr ()
   \<and> fst (deleteHabit 1 example_db) = Json Success
   \<and> map e_id (habit_entries (snd (deleteHabit 1 example_db))) = [2]
   \<and> map h_id (habits (snd (deleteHabit 1 example_db))) = [2]
   \<and> map e_id (habit_entries (snd (HabitRepository_delete 1 example_db))) = [2]
   \<and> map h_id (habits (snd (HabitRepository_delete 1 example_db))) = [2]
   \<and> map e_id (habit_entries (snd (deleteHabit 1 (example_db\<lparr>faults := [None, Some NonError]\<rparr>)))) = [2]
   \<and> map h_id (habits (snd (deleteHabit 1 (example_db\<lparr>faults := [None, Some NonError]\<rparr>)))) = [1, 2]"
proof -
  have r: "statements_run 2 example_db" by (simp add: statements_run_def example_db_def)
  have f: "faults (example_db\<lparr>faults := [None, Some NonError]\<rparr>) = None # Some NonError # []"
    by simp
  have e: "map e_id (filter (\<lambda>e. e_habit_id e \<noteq> 1) (habit_entries example_db)) = [2]"
    by (simp add: example_db_def)
  have h: "map h_id (filter (\<lambda>h. h_id h \<noteq> 1) (habits example_db)) = [2]"
       "map h_id (habits example_db) = [1, 2]"
    by (simp_all add: example_db_def)
  show ?thesis
    using delete_removes_habit_and_its_entries [of 1 example_db NonError "[]"]
      delete_removes_habit_and_its_entries
        [of 1 "example_db\<lparr>faults := [None, Some NonError]\<rparr>" NonError "[]"]
      r f e h
    by simp
qed




text \<open>
  C8. Listing. \<open>findAll\<close> returns the rows of \<open>SELECT * FROM habits ORDER BY priority DESC,
  created_at DESC\<close>: all stored habits, each once, ordered by priority descending and,
  within equal priority, by \<open>created_at\<close> descending (the TEXT of CURRENT_TIMESTAMP, whose
  order is that of time). \<open>GET /habits\<close> answers the same habits in the same order, each
  with its entries and streak. When the query rejects, \<open>findAll\<close> throws its own
  \<open>Error('Failed to fetch habits from database')\<close>, whatever was thrown below, and the
  handler answers 500 with the error \<open>Failed to fetch habits\<close> and the message of what was
  thrown as \<open>details\<close>.
\<close>

theorem listHabits_ordered:
  "(statements_run 1 db \<longrightarrow> fst (HabitRepository_findAll db) = Inr (select_habits db))
   \<and> (statements_run (1 + 2 * length (habits db)) db \<longrightarrow>
        (\<exists>result. fst (getHabits sql_date tz now window_start db) = Json result
           \<and> map habit result = select_habits db))
   \<and> mset (select_habits db) = mset (habits db)
   \<and> sorted_wrt
        (\<lambda>a b. h_priority b < h_priority a
                \<or> (h_priority a = h_priority b \<and> h_created_at b \<le> h_created_at a))
        (select_habits db)
   \<and> (faults db = Some e # fs \<longrightarrow>
        fst (HabitRepository_findAll db) = Inl (Error ''Failed to fetch habits from database'')
        \<and> fst (getHabits sql_date tz now window_start db) =
            Failure 500 ''Failed to fetch habits'' (Some (details e)))"
proof -
  have a: "fst (HabitRepository_findAll db) = Inr (select_habits db)" if "statements_run 1 db"
  proof -
    have "statements_run (Suc 0) db" using that by simp
    then show ?thesis by (simp add: HabitRepository_findAll_def db_query_runs)
  qed
  have s: "sorted_wrt
        (\<lambda>a b. h_priority b < h_priority a
                \<or> (h_priority a = h_priority b \<and> h_created_at b \<le> h_created_at a))
        (select_habits db)"
    using select_habits_sorted [of db] by (simp add: priority_desc_created_at_desc_def [abs_def])
  have c: "fst (HabitRepository_findAll db) = Inl (Error ''Failed to fetch habits from database'')
        \<and> fst (getHabits sql_date tz now window_start db) =
            Failure 500 ''Failed to fetch habits'' (Some (details e))"
    if "faults db = Some e # fs"
    using that by (simp add: HabitRepository_findAll_def getHabits_def db_query_rejects)
  show ?thesis
    using a getHabits_runs [of db sql_date tz now window_start] select_habits_mset [of db] s c
    by blast
qed

text \<open>At the example: habit 2 (priority 3) comes before habit 1 (priority 1).\<close>

theorem listHabits_ordered_witness:
  "fst (HabitRepository_findAll example_db) = Inr (select_habits example_db)
   \<and> map h_id (select_habits example_db) = [2, 1]
   \<and> map h_priority (select_habits example_db) = [3, 1]
   \<and> (\<exists>result. fst (getHabits example_date 0 example_now ''2023-12-11'' example_db) = Json result
         \<and> map habit result = select_habits example_db)
   \<and> fst (HabitRepository_findAll (example_db\<lparr>faults := [Some (Error ''SQLITE_BUSY'')]\<rparr>)) =
       Inl (Error ''Failed to fetch habits from database'')
   \<and> fst (getHabits example_date 0 example_now ''2023-12-11''
            (example_db\<lparr>faults := [Some (Error ''SQLITE_BUSY'')]\<rparr>)) =
       Failure 500 ''Failed to fetch habits'' (Some ''SQLITE_BUSY'')"
proof -
  have r: "statements_run 1 example_db" "statements_run (1 + 2 * length (habits example_db)) example_db"
    by (simp_all add: statements_run_def example_db_def)
  have o: "map h_id (select_habits example_db) = [2, 1]"
    "map h_priority (select_habits example_db) = [3, 1]"
    by (simp_all add: select_habits_def example_db_def priority_desc_created_at_desc_def)
  show ?thesis
    using listHabits_ordered
        [where db = example_db and sql_date = example_date and tz = 0 and now = example_now
           and window_start = "''2023-12-11''"]
      listHabits_ordered
        [where db = "example_db\<lparr>faults := [Some (Error ''SQLITE_BUSY'')]\<rparr>"
           and sql_date = example_date and tz = 0 and now = example_now
           and window_start = "''2023-12-11''" and e = "Error ''SQLITE_BUSY''" and fs = "[]"]
      r o
    by (simp add: details_def)
qed

text \<open>
  C9. Fetching one habit. On a database with no habit of the identifier, when the query
  runs, \<open>findById\<close> returns \<open>undefined\<close> (\<open>None\<close>) and \<open>GET /habits/:id\<close> answers 404.
  \<open>findById\<close> throws exactly when the query rejects, and then throws its own
  \<open>Error(`Failed to fetch habit with id ${id}`)\<close>; the handler then answers 500.
\<close>

theorem getHabit_absent_is_not_found:
  "(statements_run 1 db \<and> (\<forall>h \<in> set (habits db). h_id h \<noteq> i) \<longrightarrow>
      fst (HabitRepository_findById i db) = Inr None
      \<and> fst (getHabitById i db) = Failure 404 ''Habit not found'' None)
   \<and> (statements_run 1 db \<longrightarrow> fst (HabitRepository_findById i db) = Inr (select_habit i db))
   \<and> (faults db = Some e # fs \<longrightarrow>
      fst (HabitRepository_findById i db) =
        Inl (Error (''Failed to fetch habit with id '' @ Number_toString i))
      \<and> fst (getHabitById i db) = Failure 500 ''Failed to fetch habit'' (Some (details e)))
   \<and> ((\<exists>x. fst (HabitRepository_findById i db) = Inl x) = (\<not> statements_run 1 db))"
proof -
  have a: "fst (HabitRepository_findById i db) = Inr (select_habit i db)
         \<and> fst (getHabitById i db) =
            (case select_habit i db of None \<Rightarrow> Failure 404 ''Habit not found'' None | Some h \<Rightarrow> Json h)"
    if "statements_run 1 db"
  proof -
    have "statements_run (Suc 0) db" using that by simp
    then show ?thesis
      by (simp add: HabitRepository_findById_def getHabitById_def db_query_runs split: option.splits)
  qed
  have b: "fst (HabitRepository_findById i db) =
        Inl (Error (''Failed to fetch habit with id '' @ Number_toString i))
      \<and> fst (getHabitById i db) = Failure 500 ''Failed to fetch habit'' (Some (details e'))"
    if "faults db = Some e' # fs'" for e' fs'
    using that by (simp add: HabitRepository_findById_def getHabitById_def db_query_rejects)
  have c: "(\<exists>x. fst (HabitRepository_findById i db) = Inl x) = (\<not> statements_run 1 db)"
  proof (cases "statements_run 1 db")
    case True
    then show ?thesis using a by simp
  next
    case False
    then have "\<exists>e fs. faults db = Some e # fs" using not_statements_run_1 by simp
    then show ?thesis using False b by auto
  qed
  show ?thesis using a b c by (simp add: select_habit_None [symmetric])
qed

text \<open>At the example: habit 7 does not exist; a rejected query for habit 12.\<close>

theorem getHabit_absent_is_not_found_witness:
  "fst (HabitRepository_findById 7 example_db) = Inr None
   \<and> fst (getHabitById 7 example_db) = Failure 404 ''Habit not found'' None
   \<and> fst (HabitRepository_findById 12 (example_db\<lparr>faults := [Some (Error ''SQLITE_BUSY'')]\<rparr>)) =
       Inl (Error ''Failed to fetch habit with id 12'')
   \<and> fst (getHabitById 12 (example_db\<lparr>faults := [Some (Error ''SQLITE_BUSY'')]\<rparr>)) =
       Failure 500 ''Failed to fetch habit'' (Some ''SQLITE_BUSY'')"
proof -
  have r: "statements_run 1 example_db" by (simp add: statements_run_def example_db_def)
  have h7: "\<forall>h \<in> set (habits example_db). h_id h \<noteq> 7" by (simp add: example_db_def)
  have n: "Number_toString 12 = ''12''"
    by (simp add: Number_toString_def decimal.simps digit_char_def)
  show ?thesis
    using getHabit_absent_is_not_found [where db = example_db and i = 7]
      getHabit_absent_is_not_found
        [where db = "example_db\<lparr>faults := [Some (Error ''SQLITE_BUSY'')]\<rparr>"
           and e = "Error ''SQLITE_BUSY''" and fs = "[]" and i = 12]
      r h7 n
    by (simp add: details_def)
qed

end
